theory Spec2Isabelle
  imports Complex_Main
begin

section \<open>Data model (types.ts)\<close>

text \<open>
  The string unions of \<^verbatim>\<open>types.ts\<close> become datatypes. \<^verbatim>\<open>WaterPreference\<close> and
  \<^verbatim>\<open>MaintenanceLevel\<close> are the same union \<^verbatim>\<open>"low" | "medium" | "high"\<close>, so they share
  one datatype. TypeScript's \<^verbatim>\<open>number\<close> is modelled by \<open>int\<close> where it is an identifier or
  a score, and by \<open>real\<close> for coordinates; an optional member is an \<open>option\<close>.
\<close>

datatype SunExposure = full_sun | partial_shade | shade

datatype SoilType = clay | sandy | loam | well_drained | organic

datatype Level = low | medium | high

type_synonym WaterPreference = Level

type_synonym MaintenanceLevel = Level

datatype WindExposure = exposed | sheltered

record RecommendationRequest =
  city :: string
  country :: string
  sun_exposure :: SunExposure
  soil_type :: SoilType
  watering_preference :: WaterPreference
  maintenance_preference :: MaintenanceLevel
  wind_exposure :: WindExposure

record PlantScoreBreakdown =
  sun :: int
  soil :: int
  water :: int
  maintenance :: int
  wind :: int
  climate :: int

record PlantRecommendation =
  plant_id :: int
  name_tr :: string
  name_latin :: string
  suitability_status :: string
  total_score :: int
  cost_level :: string
  maintenance_summary :: string
  breakdown :: PlantScoreBreakdown

record AIRecommendationRequest = RecommendationRequest +
  top_n :: "int option"
  language :: "string option"

record AIChosenPlant =
  plant_id :: int
  reasoning :: string
  source :: string

record AIRecommendationResponse =
  rule_based_results :: "PlantRecommendation list"
  ai_best :: "AIChosenPlant option"

section \<open>View state of \<^verbatim>\<open>App\<close>\<close>

type_synonym LatLngTuple = "real \<times> real"

text \<open>The ten \<^verbatim>\<open>useState\<close> cells of \<^verbatim>\<open>App\<close>; \<^verbatim>\<open>null\<close> is \<open>None\<close>.\<close>

record AppState =
  form :: RecommendationRequest
  loading :: bool
  error :: "string option"
  results :: "PlantRecommendation list"
  selectedPosition :: "LatLngTuple option"
  locationLoading :: bool
  locationError :: "string option"
  aiLoading :: bool
  aiError :: "string option"
  aiResult :: "AIRecommendationResponse option"

definition initialForm :: RecommendationRequest where
  "initialForm = \<lparr>city = [], country = [], sun_exposure = full_sun,
     soil_type = well_drained, watering_preference = medium,
     maintenance_preference = low, wind_exposure = exposed\<rparr>"

definition initialState :: AppState where
  "initialState = \<lparr>form = initialForm, loading = False, error = None, results = [],
     selectedPosition = None, locationLoading = False, locationError = None,
     aiLoading = False, aiError = None, aiResult = None\<rparr>"

subsection \<open>The fixed user-facing messages\<close>

text \<open>
  Strings are byte lists; the two Turkish messages are given in UTF-8
  (\<^verbatim>\<open>C3 96\<close>, \<^verbatim>\<open>C4 B1\<close>, \<^verbatim>\<open>C5 9F\<close>, \<^verbatim>\<open>C3 B6\<close>, \<^verbatim>\<open>C3 BC\<close> are the non-ASCII letters).
\<close>

definition recommendation_error_message :: string where
  "recommendation_error_message =
     [CHR 0xC3, CHR 0x96] @ ''neriler al'' @ [CHR 0xC4, CHR 0xB1] @ ''n''
     @ [CHR 0xC4, CHR 0xB1] @ ''rken bir hata olu'' @ [CHR 0xC5, CHR 0x9F] @ ''tu.''"

definition ai_error_message :: string where
  "ai_error_message =
     ''AI '' @ [CHR 0xC3, CHR 0xB6] @ ''nerisi al'' @ [CHR 0xC4, CHR 0xB1] @ ''namad''
     @ [CHR 0xC4, CHR 0xB1] @ ''. L'' @ [CHR 0xC3, CHR 0xBC] @ ''tfen tekrar deneyin.''"

definition manual_entry_message :: string where
  "manual_entry_message =
     ''Could not detect city from this point, please type it manually.''"

definition unreachable_message :: string where
  "unreachable_message =
     ''Could not reach location service. Please type city manually.''"

definition unknown_plant_label :: string where
  "unknown_plant_label = ''Bilinmeyen bitki''"

section \<open>Form edits\<close>

text \<open>
  \<^verbatim>\<open>handleChange\<close> writes \<^verbatim>\<open>{...prev, [name]: value}\<close>; the seven controls of the form are
  the only sources of \<^verbatim>\<open>name\<close>, and a \<^verbatim>\<open>select\<close> can only deliver one of its options.
\<close>

datatype FieldEdit =
    Edit_city string
  | Edit_country string
  | Edit_sun_exposure SunExposure
  | Edit_soil_type SoilType
  | Edit_watering_preference WaterPreference
  | Edit_maintenance_preference MaintenanceLevel
  | Edit_wind_exposure WindExposure

fun handleChange :: "FieldEdit \<Rightarrow> RecommendationRequest \<Rightarrow> RecommendationRequest" where
  "handleChange (Edit_city v) prev = prev\<lparr>city := v\<rparr>"
| "handleChange (Edit_country v) prev = prev\<lparr>country := v\<rparr>"
| "handleChange (Edit_sun_exposure v) prev = prev\<lparr>sun_exposure := v\<rparr>"
| "handleChange (Edit_soil_type v) prev = prev\<lparr>soil_type := v\<rparr>"
| "handleChange (Edit_watering_preference v) prev = prev\<lparr>watering_preference := v\<rparr>"
| "handleChange (Edit_maintenance_preference v) prev = prev\<lparr>maintenance_preference := v\<rparr>"
| "handleChange (Edit_wind_exposure v) prev = prev\<lparr>wind_exposure := v\<rparr>"

section \<open>HTTP replies and the two fetch helpers\<close>

text \<open>
  A reply is either a rejected \<^verbatim>\<open>fetch\<close> or a response with a status and a body; the body
  is \<open>None\<close> when \<^verbatim>\<open>res.json()\<close> rejects. For the recommendations endpoint the body is
  given by its \<^verbatim>\<open>results\<close> member.
\<close>

datatype 'a Reply = NetworkError | Response nat "'a option"

datatype FetchError = FetchRejected | ApiError | BodyNotJson

definition res_ok :: "nat \<Rightarrow> bool" where
  "res_ok status = (200 \<le> status \<and> status \<le> 299)"

definition fetchRecommendations ::
  "PlantRecommendation list Reply \<Rightarrow> FetchError + PlantRecommendation list" where
  "fetchRecommendations reply =
     (case reply of
        NetworkError \<Rightarrow> Inl FetchRejected
      | Response status body \<Rightarrow>
          if \<not> res_ok status then Inl ApiError
          else (case body of None \<Rightarrow> Inl BodyNotJson | Some data \<Rightarrow> Inr data))"

definition fetchAIRecommendation ::
  "AIRecommendationResponse Reply \<Rightarrow> FetchError + AIRecommendationResponse" where
  "fetchAIRecommendation reply =
     (case reply of
        NetworkError \<Rightarrow> Inl FetchRejected
      | Response status body \<Rightarrow>
          if \<not> res_ok status then Inl ApiError
          else (case body of None \<Rightarrow> Inl BodyNotJson | Some data \<Rightarrow> Inr data))"

text \<open>\<^verbatim>\<open>{...form, top_n: 5, language: "tr"}\<close>\<close>

definition aiPayload :: "RecommendationRequest \<Rightarrow> AIRecommendationRequest" where
  "aiPayload f =
     RecommendationRequest.extend f (AIRecommendationRequest.fields (Some 5) (Some ''tr''))"

section \<open>Reverse geocoding\<close>

text \<open>
  The \<^verbatim>\<open>address\<close> object of a Nominatim reply; its members are prefixed with \<open>addr_\<close>
  because \<open>city\<close> and \<open>country\<close> already name the form's fields. A member that is
  absent is \<open>None\<close>.
\<close>

record Address =
  addr_state :: "string option"
  addr_city :: "string option"
  addr_province :: "string option"
  addr_region :: "string option"
  addr_country :: "string option"

record GeocodeData =
  address :: "Address option"

text \<open>
  What a geocode request can settle with: a parsed body, the JSON literal \<^verbatim>\<open>null\<close>
  (on which \<^verbatim>\<open>data.address\<close> throws), or a rejected \<^verbatim>\<open>fetch\<close>/\<^verbatim>\<open>res.json()\<close>.
\<close>

datatype GeocodeOutcome = GeoJson GeocodeData | GeoJsonNull | GeoFailure

definition empty_address :: Address where
  "empty_address = \<lparr>addr_state = None, addr_city = None, addr_province = None,
     addr_region = None, addr_country = None\<rparr>"

text \<open>JavaScript truthiness of a possibly absent string, and \<^verbatim>\<open>a || b\<close> on such values.\<close>

definition truthy :: "string option \<Rightarrow> bool" where
  "truthy v = (case v of None \<Rightarrow> False | Some s \<Rightarrow> s \<noteq> [])"

definition js_or :: "string option \<Rightarrow> string option \<Rightarrow> string option" where
  "js_or a b = (if truthy a then a else b)"

text \<open>\<^verbatim>\<open>a || ""\<close>\<close>

definition or_empty :: "string option \<Rightarrow> string" where
  "or_empty v = (case v of None \<Rightarrow> [] | Some s \<Rightarrow> if s \<noteq> [] then s else [])"

text \<open>\<^verbatim>\<open>a || b\<close> on two strings\<close>

definition str_or :: "string \<Rightarrow> string \<Rightarrow> string" where
  "str_or a b = (if a \<noteq> [] then a else b)"

definition province_of :: "Address \<Rightarrow> string" where
  "province_of a =
     or_empty (js_or (js_or (js_or (addr_state a) (addr_city a)) (addr_province a))
                 (addr_region a))"

definition country_of :: "Address \<Rightarrow> string" where
  "country_of a = or_empty (addr_country a)"

text \<open>\<^verbatim>\<open>data.address || {}\<close>\<close>

definition address_of :: "GeocodeData \<Rightarrow> Address" where
  "address_of d = (case address d of None \<Rightarrow> empty_address | Some a \<Rightarrow> a)"

text \<open>
  \<^verbatim>\<open>{...f, city: province || f.city, country: country || f.country}\<close>. The source
  writes this object twice: in the \<^verbatim>\<open>setForm\<close> updater, over \<^verbatim>\<open>prev\<close>, and in the timer
  callback, over the \<^verbatim>\<open>form\<close> of the enclosing render.
\<close>

definition merge_location ::
  "string \<Rightarrow> string \<Rightarrow> RecommendationRequest \<Rightarrow> RecommendationRequest" where
  "merge_location province cntry f =
     f\<lparr>city := str_or province (city f), country := str_or cntry (country f)\<rparr>"

section \<open>Rendering\<close>

text \<open>The \<^verbatim>\<open>disabled\<close> attribute of the AI button.\<close>

definition ai_button_disabled :: "AppState \<Rightarrow> bool" where
  "ai_button_disabled s =
     (aiLoading s \<or> city (form s) = [] \<or> country (form s) = [])"

text \<open>
  The form fires \<^verbatim>\<open>onSubmit\<close> only when its submit button is not \<^verbatim>\<open>disabled\<close> and the two
  \<^verbatim>\<open>required\<close> inputs are filled.
\<close>

definition submit_enabled :: "AppState \<Rightarrow> bool" where
  "submit_enabled s = (\<not> loading s \<and> city (form s) \<noteq> [] \<and> country (form s) \<noteq> [])"

text \<open>The label of the best pick: \<^verbatim>\<open>results.find(...)\<close> and the template string.\<close>

definition chosen_label :: "PlantRecommendation list \<Rightarrow> AIChosenPlant \<Rightarrow> string" where
  "chosen_label rs best =
     (case find (\<lambda>p. PlantRecommendation.plant_id p = AIChosenPlant.plant_id best) rs of
        Some chosen \<Rightarrow> name_tr chosen @ '' ('' @ name_latin chosen @ '')''
      | None \<Rightarrow> unknown_plant_label)"

text \<open>The box is rendered under \<^verbatim>\<open>aiResult && aiResult.ai_best\<close>; \<open>None\<close> is no box.\<close>

definition best_pick_label :: "AppState \<Rightarrow> string option" where
  "best_pick_label s =
     (case aiResult s of
        None \<Rightarrow> None
      | Some r \<Rightarrow>
          (case ai_best r of
             None \<Rightarrow> None
           | Some best \<Rightarrow> Some (chosen_label (results s) best)))"

section \<open>Requests in flight and pending timers\<close>

text \<open>
  The view runs on a single-threaded event loop: every handler and every promise
  continuation runs to completion, and the state it writes is the state the next
  one reads. Whatever is suspended between two such runs is kept in the
  \<open>World\<close> beside the view state: the geocode requests (each with the \<^verbatim>\<open>form\<close> its
  effect closure captured and whether its \<^verbatim>\<open>AbortController\<close> has fired), the
  \<^verbatim>\<open>setTimeout\<close> callbacks, and the two kinds of recommendation request with their
  bodies.
\<close>

record GeoRequest =
  geo_id :: nat
  geo_position :: LatLngTuple
  geo_form :: RecommendationRequest
  geo_aborted :: bool

record AutoFetchTimer =
  timer_id :: nat
  timer_form :: RecommendationRequest
  timer_province :: string
  timer_country :: string

datatype Origin = ManualSubmit | AutoFetch

record RecommendationFetch =
  rec_id :: nat
  rec_origin :: Origin
  rec_body :: RecommendationRequest

record AIFetch =
  ai_id :: nat
  ai_body :: AIRecommendationRequest

text \<open>
  \<open>controller\<close> is the request whose \<^verbatim>\<open>controller.abort()\<close> the current effect cleanup
  would call; \<open>next_id\<close> numbers requests and timers.
\<close>

record World =
  ui :: AppState
  controller :: "nat option"
  geo_inflight :: "GeoRequest list"
  timers :: "AutoFetchTimer list"
  rec_inflight :: "RecommendationFetch list"
  ai_inflight :: "AIFetch list"
  next_id :: nat

definition initialWorld :: World where
  "initialWorld = \<lparr>ui = initialState, controller = None, geo_inflight = [], timers = [],
     rec_inflight = [], ai_inflight = [], next_id = 0\<rparr>"

section \<open>Handlers\<close>

text \<open>
  \<^verbatim>\<open>handleSubmit\<close> up to its \<^verbatim>\<open>await\<close>: three state writes, then the request is sent
  with the \<^verbatim>\<open>form\<close> of the current render as its body.
\<close>

definition handleSubmit :: "World \<Rightarrow> World" where
  "handleSubmit w =
     w\<lparr>ui := (ui w)\<lparr>loading := True, error := None, aiResult := None\<rparr>,
       rec_inflight := rec_inflight w @
         [\<lparr>rec_id = next_id w, rec_origin = ManualSubmit, rec_body = form (ui w)\<rparr>],
       next_id := Suc (next_id w)\<rparr>"

text \<open>\<^verbatim>\<open>handleSubmit\<close> after its \<^verbatim>\<open>await\<close>: \<^verbatim>\<open>try\<close>/\<^verbatim>\<open>catch\<close>/\<^verbatim>\<open>finally\<close>.\<close>

definition handleSubmit_settled :: "PlantRecommendation list Reply \<Rightarrow> AppState \<Rightarrow> AppState" where
  "handleSubmit_settled reply s =
     (case fetchRecommendations reply of
        Inr data \<Rightarrow> s\<lparr>results := data, loading := False\<rparr>
      | Inl err \<Rightarrow> s\<lparr>error := Some recommendation_error_message, loading := False\<rparr>)"

text \<open>\<^verbatim>\<open>handleAIRecommendation\<close> up to its \<^verbatim>\<open>await\<close>, and after it.\<close>

definition handleAIRecommendation :: "World \<Rightarrow> World" where
  "handleAIRecommendation w =
     w\<lparr>ui := (ui w)\<lparr>aiLoading := True, aiError := None\<rparr>,
       ai_inflight := ai_inflight w @
         [\<lparr>ai_id = next_id w, ai_body = aiPayload (form (ui w))\<rparr>],
       next_id := Suc (next_id w)\<rparr>"

definition handleAIRecommendation_settled ::
  "AIRecommendationResponse Reply \<Rightarrow> AppState \<Rightarrow> AppState" where
  "handleAIRecommendation_settled reply s =
     (case fetchAIRecommendation reply of
        Inr data \<Rightarrow>
          s\<lparr>aiResult := Some data, results := rule_based_results data, aiLoading := False\<rparr>
      | Inl err \<Rightarrow> s\<lparr>aiError := Some ai_error_message, aiLoading := False\<rparr>)"

text \<open>
  A map click: \<^verbatim>\<open>setSelectedPosition\<close> with a fresh tuple, so the effect's dependency
  always changes. The cleanup of the previous effect aborts its controller, then the
  effect body runs in the new render: two state writes and a new request, whose
  continuations close over this render's \<^verbatim>\<open>form\<close>.
\<close>

definition abort :: "nat option \<Rightarrow> GeoRequest list \<Rightarrow> GeoRequest list" where
  "abort c rs = map (\<lambda>r. if c = Some (geo_id r) then r\<lparr>geo_aborted := True\<rparr> else r) rs"

definition selectPosition :: "LatLngTuple \<Rightarrow> World \<Rightarrow> World" where
  "selectPosition pos w =
     w\<lparr>ui := (ui w)\<lparr>selectedPosition := Some pos, locationLoading := True,
                    locationError := None\<rparr>,
       controller := Some (next_id w),
       geo_inflight := abort (controller w) (geo_inflight w) @
         [\<lparr>geo_id = next_id w, geo_position = pos, geo_form = form (ui w),
           geo_aborted = False\<rparr>],
       next_id := Suc (next_id w)\<rparr>"

text \<open>
  The promise chain of the effect for request \<open>r\<close>. An aborted request rejects with
  \<^verbatim>\<open>AbortError\<close> whatever the service sent: \<^verbatim>\<open>.catch\<close> returns, \<^verbatim>\<open>.finally\<close> runs. Otherwise
  the second \<^verbatim>\<open>.then\<close> runs on the body: the empty-address branch, or the \<^verbatim>\<open>setForm\<close>
  merge followed by \<^verbatim>\<open>setTimeout\<close>, whose callback keeps \<open>geo_form r\<close>, the province and
  the country. \<^verbatim>\<open>.finally\<close> clears \<^verbatim>\<open>locationLoading\<close> on every path.
\<close>

definition geocode_settled :: "GeoRequest \<Rightarrow> GeocodeOutcome \<Rightarrow> World \<Rightarrow> World" where
  "geocode_settled r outcome w =
     (if geo_aborted r then w\<lparr>ui := (ui w)\<lparr>locationLoading := False\<rparr>\<rparr>
      else
        (case outcome of
           GeoJson d \<Rightarrow>
             (let province = province_of (address_of d);
                  cntry = country_of (address_of d)
              in if province = [] \<and> cntry = []
                 then w\<lparr>ui := (ui w)\<lparr>locationError := Some manual_entry_message,
                                     locationLoading := False\<rparr>\<rparr>
                 else w\<lparr>ui := (ui w)\<lparr>form := merge_location province cntry (form (ui w)),
                                     locationLoading := False\<rparr>,
                        timers := timers w @
                          [\<lparr>timer_id = next_id w, timer_form = geo_form r,
                            timer_province = province, timer_country = cntry\<rparr>],
                        next_id := Suc (next_id w)\<rparr>)
         | GeoJsonNull \<Rightarrow>
             w\<lparr>ui := (ui w)\<lparr>locationError := Some unreachable_message,
                            locationLoading := False\<rparr>\<rparr>
         | GeoFailure \<Rightarrow>
             w\<lparr>ui := (ui w)\<lparr>locationError := Some unreachable_message,
                            locationLoading := False\<rparr>\<rparr>))"

text \<open>
  The timer callback: \<^verbatim>\<open>updatedForm\<close> is built from the captured \<^verbatim>\<open>form\<close>, then three
  state writes and \<^verbatim>\<open>fetchRecommendations(updatedForm)\<close>.
\<close>

definition updatedForm :: "AutoFetchTimer \<Rightarrow> RecommendationRequest" where
  "updatedForm t = merge_location (timer_province t) (timer_country t) (timer_form t)"

definition autoFetch :: "AutoFetchTimer \<Rightarrow> World \<Rightarrow> World" where
  "autoFetch t w =
     w\<lparr>ui := (ui w)\<lparr>loading := True, error := None, aiResult := None\<rparr>,
       rec_inflight := rec_inflight w @
         [\<lparr>rec_id = next_id w, rec_origin = AutoFetch, rec_body = updatedForm t\<rparr>],
       next_id := Suc (next_id w)\<rparr>"

text \<open>The \<^verbatim>\<open>.then\<close>/\<^verbatim>\<open>.catch\<close>/\<^verbatim>\<open>.finally\<close> of the auto-fetch.\<close>

definition autoFetch_settled :: "PlantRecommendation list Reply \<Rightarrow> AppState \<Rightarrow> AppState" where
  "autoFetch_settled reply s =
     (case fetchRecommendations reply of
        Inr data \<Rightarrow> s\<lparr>results := data, loading := False\<rparr>
      | Inl err \<Rightarrow> s\<lparr>error := Some recommendation_error_message, loading := False\<rparr>)"

section \<open>The event loop\<close>

datatype Event =
    Change FieldEdit
  | Submit
  | AIClick
  | MapClick LatLngTuple
  | GeoSettled nat GeocodeOutcome
  | TimerFired nat
  | RecSettled nat "PlantRecommendation list Reply"
  | AISettled nat "AIRecommendationResponse Reply"

text \<open>
  One turn of the loop. A click on a disabled control does nothing; a settle or timer
  event for an id that is not pending does nothing.
\<close>

fun step :: "Event \<Rightarrow> World \<Rightarrow> World" where
  "step (Change e) w = w\<lparr>ui := (ui w)\<lparr>form := handleChange e (form (ui w))\<rparr>\<rparr>"
| "step Submit w = (if submit_enabled (ui w) then handleSubmit w else w)"
| "step AIClick w = (if ai_button_disabled (ui w) then w else handleAIRecommendation w)"
| "step (MapClick pos) w = selectPosition pos w"
| "step (GeoSettled i outcome) w =
     (case find (\<lambda>r. geo_id r = i) (geo_inflight w) of
        None \<Rightarrow> w
      | Some r \<Rightarrow>
          geocode_settled r outcome
            (w\<lparr>geo_inflight := filter (\<lambda>r. geo_id r \<noteq> i) (geo_inflight w)\<rparr>))"
| "step (TimerFired i) w =
     (case find (\<lambda>t. timer_id t = i) (timers w) of
        None \<Rightarrow> w
      | Some t \<Rightarrow> autoFetch t (w\<lparr>timers := filter (\<lambda>t. timer_id t \<noteq> i) (timers w)\<rparr>))"
| "step (RecSettled i reply) w =
     (case find (\<lambda>q. rec_id q = i) (rec_inflight w) of
        None \<Rightarrow> w
      | Some q \<Rightarrow>
          w\<lparr>ui := (case rec_origin q of
                     ManualSubmit \<Rightarrow> handleSubmit_settled reply (ui w)
                   | AutoFetch \<Rightarrow> autoFetch_settled reply (ui w)),
            rec_inflight := filter (\<lambda>q. rec_id q \<noteq> i) (rec_inflight w)\<rparr>)"
| "step (AISettled i reply) w =
     (case find (\<lambda>q. ai_id q = i) (ai_inflight w) of
        None \<Rightarrow> w
      | Some q \<Rightarrow>
          w\<lparr>ui := handleAIRecommendation_settled reply (ui w),
            ai_inflight := filter (\<lambda>q. ai_id q \<noteq> i) (ai_inflight w)\<rparr>)"

fun run :: "Event list \<Rightarrow> World \<Rightarrow> World" where
  "run [] w = w"
| "run (e # es) w = run es (step e w)"

text \<open>A geocode request is live while it is in flight and its controller has not fired.\<close>

definition live_geocodes :: "World \<Rightarrow> GeoRequest list" where
  "live_geocodes w = filter (\<lambda>r. \<not> geo_aborted r) (geo_inflight w)"

text \<open>The AI responses that a run of events delivers, in order.\<close>

fun ai_arrivals :: "Event list \<Rightarrow> AIRecommendationResponse list" where
  "ai_arrivals [] = []"
| "ai_arrivals (AISettled i reply # es) =
     (case fetchAIRecommendation reply of
        Inr data \<Rightarrow> data # ai_arrivals es
      | Inl err \<Rightarrow> ai_arrivals es)"
| "ai_arrivals (e # es) = ai_arrivals es"

section \<open>Auxiliary definitions for the properties\<close>

text \<open>
  The spec's wording for the place name: the first non-empty value of a list of
  candidates in their given order, empty when there is none. It is compared with
  \<open>province_of\<close>, which follows the source's chain of \<^verbatim>\<open>||\<close>.
\<close>

fun first_nonempty :: "string option list \<Rightarrow> string" where
  "first_nonempty [] = []"
| "first_nonempty (None # vs) = first_nonempty vs"
| "first_nonempty (Some s # vs) = (if s \<noteq> [] then s else first_nonempty vs)"

text \<open>The AI loading flag is set exactly while an AI request is in flight, and there is at most one.\<close>

definition ai_inv :: "World \<Rightarrow> bool" where
  "ai_inv w = ((aiLoading (ui w) = (ai_inflight w \<noteq> [])) \<and> length (ai_inflight w) \<le> 1)"

text \<open>At most one geocode request is live, and it is the one the next cleanup would abort.\<close>

definition geo_inv :: "World \<Rightarrow> bool" where
  "geo_inv w = (length (live_geocodes w) \<le> 1
       \<and> list_all (\<lambda>r. controller w = Some (geo_id r)) (live_geocodes w))"

text \<open>Sample data for the worked examples.\<close>

definition olive :: PlantRecommendation where
  "olive = \<lparr>PlantRecommendation.plant_id = 1, name_tr = ''Zeytin'',
     name_latin = ''Olea europaea'', suitability_status = ''Uygun'', total_score = 87,
     cost_level = ''low'', maintenance_summary = ''-'',
     breakdown = \<lparr>sun = 20, soil = 15, water = 15, maintenance = 12, wind = 10,
       climate = 15\<rparr>\<rparr>"

definition turkey_only :: GeocodeData where
  "turkey_only = \<lparr>address = Some (empty_address\<lparr>addr_country := Some ''Turkey''\<rparr>)\<rparr>"

text \<open>Every geocode request in flight was numbered before \<open>next_id\<close>.\<close>

definition geo_ids_fresh :: "World \<Rightarrow> bool" where
  "geo_ids_fresh w = list_all (\<lambda>r. geo_id r < next_id w) (geo_inflight w)"

text \<open>
  Request \<open>a\<close> has been issued and, as long as it is in flight, its controller has
  fired.
\<close>

definition superseded :: "nat \<Rightarrow> World \<Rightarrow> bool" where
  "superseded a w =
     (a < next_id w \<and> list_all geo_aborted (filter (\<lambda>r. geo_id r = a) (geo_inflight w)))"

text \<open>An AI response whose best pick is the sample plant.\<close>

definition olive_pick :: AIRecommendationResponse where
  "olive_pick = \<lparr>rule_based_results = [olive],
     ai_best = Some \<lparr>plant_id = 1, reasoning = ''kuraga dayanikli'', source = ''ai''\<rparr>\<rparr>"

section \<open>Basic facts about the model\<close>

lemmas model_defs = initialWorld_def initialState_def initialForm_def selectPosition_def
  abort_def geocode_settled_def autoFetch_def updatedForm_def merge_location_def str_or_def
  province_of_def country_of_def address_of_def empty_address_def js_or_def truthy_def
  or_empty_def handleSubmit_def handleSubmit_settled_def autoFetch_settled_def
  fetchRecommendations_def res_ok_def submit_enabled_def ai_button_disabled_def
  handleAIRecommendation_def handleAIRecommendation_settled_def fetchAIRecommendation_def
  Let_def

lemma run_append: "run (xs @ ys) w = run ys (run xs w)"
  by (induction xs arbitrary: w) simp_all

lemma province_of_first_nonempty:
  "province_of a = first_nonempty [addr_state a, addr_city a, addr_province a, addr_region a]"
  by (cases "addr_state a"; cases "addr_city a"; cases "addr_province a"; cases "addr_region a")
     (simp_all add: province_of_def js_or_def truthy_def or_empty_def)

lemma province_of_empty:
  assumes "\<not> truthy (addr_state a)" and "\<not> truthy (addr_city a)"
    and "\<not> truthy (addr_province a)" and "\<not> truthy (addr_region a)"
  shows "province_of a = []"
  using assms
  by (auto simp: province_of_def js_or_def truthy_def or_empty_def split: option.splits)

lemma country_of_empty: "\<not> truthy (addr_country a) \<Longrightarrow> country_of a = []"
  by (auto simp: country_of_def truthy_def or_empty_def split: option.splits)

subsection \<open>The AI request invariant\<close>

lemma find_in_short_list:
  "length xs \<le> 1 \<Longrightarrow> find P xs = Some q \<Longrightarrow> filter (\<lambda>x. \<not> P x) xs = []"
  by (cases xs) (auto split: if_splits)

lemma step_ai_inv: "ai_inv w \<Longrightarrow> ai_inv (step e w)"
proof (cases e)
  case (AISettled i reply)
  assume inv: "ai_inv w"
  show ?thesis
  proof (cases "find (\<lambda>q. ai_id q = i) (ai_inflight w)")
    case None
    with inv AISettled show ?thesis by simp
  next
    case (Some q)
    from inv have "length (ai_inflight w) \<le> 1" by (simp add: ai_inv_def)
    from find_in_short_list[OF this Some]
    have "filter (\<lambda>q. ai_id q \<noteq> i) (ai_inflight w) = []" by simp
    with Some AISettled show ?thesis
      by (simp add: ai_inv_def handleAIRecommendation_settled_def split: sum.splits)
  qed
next
  case (GeoSettled i outcome)
  assume "ai_inv w"
  with GeoSettled show ?thesis
    by (auto simp: ai_inv_def geocode_settled_def Let_def
        split: option.splits GeocodeOutcome.splits)
next
  case (RecSettled i reply)
  assume "ai_inv w"
  with RecSettled show ?thesis
    by (auto simp: ai_inv_def handleSubmit_settled_def autoFetch_settled_def
        split: option.splits Origin.splits sum.splits)
qed (auto simp: ai_inv_def handleSubmit_def handleAIRecommendation_def ai_button_disabled_def
      selectPosition_def autoFetch_def split: option.splits)

lemma run_ai_inv: "ai_inv w \<Longrightarrow> ai_inv (run evs w)"
  by (induction evs arbitrary: w) (simp_all add: step_ai_inv)

lemma initial_ai_inv: "ai_inv initialWorld"
  by (simp add: ai_inv_def initialWorld_def initialState_def)

subsection \<open>Where a displayed AI result comes from\<close>

lemma step_aiResult:
  "aiResult (ui (step e w)) = aiResult (ui w) \<or> aiResult (ui (step e w)) = None
   \<or> (\<exists>d \<in> set (ai_arrivals [e]). aiResult (ui (step e w)) = Some d)"
proof (cases e)
  case (AISettled i reply)
  then show ?thesis
    by (auto simp: handleAIRecommendation_settled_def split: option.splits sum.splits)
next
  case (GeoSettled i outcome)
  then show ?thesis
    by (auto simp: geocode_settled_def Let_def split: option.splits GeocodeOutcome.splits)
next
  case (RecSettled i reply)
  then show ?thesis
    by (auto simp: handleSubmit_settled_def autoFetch_settled_def
        split: option.splits Origin.splits sum.splits)
qed (auto simp: handleSubmit_def handleAIRecommendation_def
      selectPosition_def autoFetch_def split: option.splits)

lemma ai_arrivals_Cons:
  "set (ai_arrivals (e # es)) = set (ai_arrivals [e]) \<union> set (ai_arrivals es)"
  by (cases e) (auto split: sum.splits)

lemma run_aiResult:
  "aiResult (ui (run evs w)) = aiResult (ui w) \<or> aiResult (ui (run evs w)) = None
   \<or> (\<exists>d \<in> set (ai_arrivals evs). aiResult (ui (run evs w)) = Some d)"
proof (induction evs arbitrary: w)
  case Nil
  show ?case by simp
next
  case (Cons e es)
  from Cons[of "step e w"] step_aiResult[of e w] show ?case
    unfolding ai_arrivals_Cons[of e es] run.simps by (elim disjE bexE) auto
qed

lemma cleared_ai_result_stays_cleared:
  "aiResult (ui w) = None \<Longrightarrow>
   (case aiResult (ui (run evs w)) of None \<Rightarrow> True | Some d \<Rightarrow> d \<in> set (ai_arrivals evs))"
  using run_aiResult[of evs w] by (auto split: option.splits)

lemma ai_arrivals_append:
  "set (ai_arrivals (xs @ ys)) = set (ai_arrivals xs) \<union> set (ai_arrivals ys)"
proof (induction xs)
  case Nil
  show ?case by simp
next
  case (Cons x xs)
  then show ?case
    using ai_arrivals_Cons[of x "xs @ ys"] ai_arrivals_Cons[of x xs] by auto
qed

lemma cleared_until_ai_arrival:
  assumes "aiResult (ui w) = None" and "ai_arrivals evs = []"
  shows "aiResult (ui (step (RecSettled i reply) (run evs w))) = None"
proof -
  have "set (ai_arrivals (evs @ [RecSettled i reply])) = {}"
    using assms(2) by (simp add: ai_arrivals_append)
  with cleared_ai_result_stays_cleared[OF assms(1), of "evs @ [RecSettled i reply]"]
  show ?thesis by (simp add: run_append split: option.splits)
qed

subsection \<open>Cancellation of geocode requests\<close>

lemma live_abort:
  "list_all (\<lambda>r. c = Some (geo_id r)) (filter (\<lambda>r. \<not> geo_aborted r) rs)
   \<Longrightarrow> filter (\<lambda>r. \<not> geo_aborted r) (abort c rs) = []"
  by (auto simp: abort_def filter_empty_conv list_all_iff)

lemma live_filter:
  "length (filter (\<lambda>x. Q x \<and> P x) rs) \<le> length (filter P rs)"
  by (induction rs) auto

lemma step_geo_inv: "geo_inv w \<Longrightarrow> geo_inv (step e w)"
proof (cases e)
  case (MapClick pos)
  assume "geo_inv w"
  with MapClick show ?thesis
    by (simp add: geo_inv_def live_geocodes_def selectPosition_def live_abort)
next
  case (GeoSettled i outcome)
  assume inv: "geo_inv w"
  have "geo_inv (w\<lparr>geo_inflight := filter (\<lambda>r. geo_id r \<noteq> i) (geo_inflight w)\<rparr>)"
    using inv
      le_trans[OF live_filter[of "\<lambda>r. geo_id r \<noteq> i" "\<lambda>r. \<not> geo_aborted r" "geo_inflight w"]]
    by (auto simp: geo_inv_def live_geocodes_def list_all_iff)
  moreover have "\<And>r v. geo_inv v \<Longrightarrow> geo_inv (geocode_settled r outcome v)"
    by (auto simp: geo_inv_def live_geocodes_def geocode_settled_def Let_def
        split: GeocodeOutcome.splits)
  ultimately show ?thesis using inv GeoSettled by (simp split: option.splits)
qed (auto simp: geo_inv_def live_geocodes_def handleSubmit_def handleAIRecommendation_def
      autoFetch_def split: option.splits)

lemma run_geo_inv: "geo_inv w \<Longrightarrow> geo_inv (run evs w)"
  by (induction evs arbitrary: w) (simp_all add: step_geo_inv)

lemma initial_geo_inv: "geo_inv initialWorld"
  by (simp add: geo_inv_def live_geocodes_def initialWorld_def)

text \<open>Whatever the user and the network do, at most one geocode request is live.\<close>

lemma at_most_one_live_geocode: "length (live_geocodes (run evs initialWorld)) \<le> 1"
  using run_geo_inv[OF initial_geo_inv, of evs] by (simp add: geo_inv_def)

text \<open>A new selection leaves its own request as the only live one.\<close>

lemma selection_cancels_previous:
  "live_geocodes (run (evs @ [MapClick pos]) initialWorld) =
     [\<lparr>geo_id = next_id (run evs initialWorld), geo_position = pos,
       geo_form = form (ui (run evs initialWorld)), geo_aborted = False\<rparr>]"
  using run_geo_inv[OF initial_geo_inv, of evs]
  by (simp add: run_append geo_inv_def live_geocodes_def selectPosition_def live_abort)

text \<open>
  When a cancelled request settles, the form, the results and every flag but
  \<open>locationLoading\<close> are as before; \<open>locationLoading\<close> is cleared.
\<close>

lemma aborted_geocode_settles_to:
  "geo_aborted r \<Longrightarrow>
   geocode_settled r outcome w = w\<lparr>ui := (ui w)\<lparr>locationLoading := False\<rparr>\<rparr>"
  by (simp add: geocode_settled_def)

lemma geocode_settled_frame:
  "geo_inflight (geocode_settled r outcome w) = geo_inflight w
   \<and> next_id w \<le> next_id (geocode_settled r outcome w)
   \<and> controller (geocode_settled r outcome w) = controller w"
  by (simp add: geocode_settled_def Let_def split: GeocodeOutcome.splits)

lemma step_geo_ids_fresh: "geo_ids_fresh w \<Longrightarrow> geo_ids_fresh (step e w)"
proof (cases e)
  case (MapClick pos)
  assume "geo_ids_fresh w"
  with MapClick show ?thesis
    by (auto simp: geo_ids_fresh_def selectPosition_def abort_def list_all_iff)
next
  case (GeoSettled i outcome)
  assume inv: "geo_ids_fresh w"
  show ?thesis
  proof (cases "find (\<lambda>r. geo_id r = i) (geo_inflight w)")
    case None
    with inv GeoSettled show ?thesis by simp
  next
    case (Some r)
    let ?v = "w\<lparr>geo_inflight := filter (\<lambda>r. geo_id r \<noteq> i) (geo_inflight w)\<rparr>"
    from inv have "geo_ids_fresh ?v" by (auto simp: geo_ids_fresh_def list_all_iff)
    with geocode_settled_frame[of r outcome ?v]
    have "geo_ids_fresh (geocode_settled r outcome ?v)"
      by (auto simp: geo_ids_fresh_def list_all_iff)
    with Some GeoSettled show ?thesis by simp
  qed
qed (auto simp: geo_ids_fresh_def handleSubmit_def handleAIRecommendation_def
      autoFetch_def list_all_iff split: option.splits)

lemma run_geo_ids_fresh: "geo_ids_fresh w \<Longrightarrow> geo_ids_fresh (run evs w)"
  by (induction evs arbitrary: w) (simp_all add: step_geo_ids_fresh)

lemma initial_geo_ids_fresh: "geo_ids_fresh initialWorld"
  by (simp add: geo_ids_fresh_def initialWorld_def)

lemma step_superseded: "superseded a w \<Longrightarrow> superseded a (step e w)"
proof (cases e)
  case (MapClick pos)
  assume "superseded a w"
  with MapClick show ?thesis
    by (auto simp: superseded_def selectPosition_def abort_def list_all_iff)
next
  case (GeoSettled i outcome)
  assume inv: "superseded a w"
  show ?thesis
  proof (cases "find (\<lambda>r. geo_id r = i) (geo_inflight w)")
    case None
    with inv GeoSettled show ?thesis by simp
  next
    case (Some r)
    let ?v = "w\<lparr>geo_inflight := filter (\<lambda>r. geo_id r \<noteq> i) (geo_inflight w)\<rparr>"
    from inv have "superseded a ?v" by (auto simp: superseded_def list_all_iff)
    with geocode_settled_frame[of r outcome ?v]
    have "superseded a (geocode_settled r outcome ?v)"
      by (auto simp: superseded_def list_all_iff)
    with Some GeoSettled show ?thesis by simp
  qed
qed (auto simp: superseded_def handleSubmit_def handleAIRecommendation_def
      autoFetch_def list_all_iff split: option.splits)

lemma run_superseded: "superseded a w \<Longrightarrow> superseded a (run evs w)"
  by (induction evs arbitrary: w) (simp_all add: step_superseded)

lemma find_mem: "find P xs = Some x \<Longrightarrow> x \<in> set xs \<and> P x"
  by (induction xs) (auto split: if_splits)

lemma find_abort:
  "find (\<lambda>r. geo_id r = a) rs = Some x \<Longrightarrow>
   \<exists>y. find (\<lambda>r. geo_id r = a) (abort c rs @ ys) = Some y"
  by (induction rs) (auto simp: abort_def)

lemma click_supersedes:
  assumes "geo_inv w" and "geo_ids_fresh w"
    and "find (\<lambda>r. geo_id r = a) (geo_inflight w) = Some rA"
  shows "superseded a (selectPosition pos w)"
    and "\<exists>r. find (\<lambda>r. geo_id r = a) (geo_inflight (selectPosition pos w)) = Some r
             \<and> geo_aborted r"
proof -
  from find_mem[OF assms(3)] assms(2) have lt: "a < next_id w"
    by (auto simp: geo_ids_fresh_def list_all_iff)
  from assms(1) have "filter (\<lambda>r. \<not> geo_aborted r) (abort (controller w) (geo_inflight w)) = []"
    by (simp add: geo_inv_def live_geocodes_def live_abort)
  then have all: "\<forall>r \<in> set (abort (controller w) (geo_inflight w)). geo_aborted r"
    by (simp add: filter_empty_conv)
  with lt show s: "superseded a (selectPosition pos w)"
    by (auto simp: superseded_def selectPosition_def list_all_iff)
  from find_abort[OF assms(3)] obtain y where
    y: "find (\<lambda>r. geo_id r = a) (geo_inflight (selectPosition pos w)) = Some y"
    by (auto simp: selectPosition_def)
  from find_mem[OF y] s have "geo_aborted y"
    by (auto simp: superseded_def list_all_iff)
  with y show "\<exists>r. find (\<lambda>r. geo_id r = a) (geo_inflight (selectPosition pos w)) = Some r
             \<and> geo_aborted r" by blast
qed

lemma superseded_settle:
  assumes "superseded a v"
  shows "step (GeoSettled a outcome) v = step (GeoSettled a GeoFailure) v"
    and "ui (step (GeoSettled a outcome) v) = ui v
         \<or> ui (step (GeoSettled a outcome) v) = (ui v)\<lparr>locationLoading := False\<rparr>"
    and "timers (step (GeoSettled a outcome) v) = timers v"
    and "rec_inflight (step (GeoSettled a outcome) v) = rec_inflight v"
proof -
  have *: "geo_aborted r" if "find (\<lambda>r. geo_id r = a) (geo_inflight v) = Some r" for r
    using find_mem[OF that] assms by (auto simp: superseded_def list_all_iff)
  show "step (GeoSettled a outcome) v = step (GeoSettled a GeoFailure) v"
    using * by (auto simp: aborted_geocode_settles_to split: option.splits)
  show "ui (step (GeoSettled a outcome) v) = ui v
         \<or> ui (step (GeoSettled a outcome) v) = (ui v)\<lparr>locationLoading := False\<rparr>"
    using * by (auto simp: aborted_geocode_settles_to split: option.splits)
  show "timers (step (GeoSettled a outcome) v) = timers v"
    using * by (auto simp: aborted_geocode_settles_to split: option.splits)
  show "rec_inflight (step (GeoSettled a outcome) v) = rec_inflight v"
    using * by (auto simp: aborted_geocode_settles_to split: option.splits)
qed

text \<open>
  The one write of a cancelled request: the \<^verbatim>\<open>.finally\<close> of its promise chain clears
  \<open>locationLoading\<close>, here while the request of the second click is still live.
\<close>

lemma cancelled_request_clears_location_loading:
  "locationLoading (ui (run [MapClick (38, 27), MapClick (40, 33)] initialWorld))
   \<and> map geo_id (live_geocodes (run [MapClick (38, 27), MapClick (40, 33)] initialWorld)) = [1]
   \<and> \<not> locationLoading (ui (run [MapClick (38, 27), MapClick (40, 33),
         GeoSettled 0 (GeoJson turkey_only)] initialWorld))
   \<and> map geo_id (live_geocodes (run [MapClick (38, 27), MapClick (40, 33),
         GeoSettled 0 (GeoJson turkey_only)] initialWorld)) = [1]"
  by (simp add: model_defs live_geocodes_def turkey_only_def)

subsection \<open>Failed recommendation requests\<close>

lemma failed_settle:
  assumes "find (\<lambda>q. rec_id q = i) (rec_inflight w) = Some q"
    and "reply = NetworkError
         \<or> (\<exists>status body. reply = Response status body \<and> \<not> res_ok status)"
  shows "error (ui (step (RecSettled i reply) w)) = Some recommendation_error_message
       \<and> results (ui (step (RecSettled i reply) w)) = results (ui w)"
  using assms
  by (auto simp: handleSubmit_settled_def autoFetch_settled_def fetchRecommendations_def
      split: Origin.splits)

lemma find_own: "\<exists>q. find (\<lambda>q. rec_id q = n) (qs @ [\<lparr>rec_id = n, rec_origin = orig, rec_body = b\<rparr>]) = Some q"
  by (induction qs) auto

section \<open>The claims\<close>

text \<open>
  C1. The follow-up recommendation request scheduled by a geocode resolution should
  carry the form as it stands after the merge. In the code the timer callback builds
  its body from the \<^verbatim>\<open>form\<close> captured when the point was selected, so edits made after
  the click are missing from the body. The run below: the user clicks the map, types
  the city ``Ankara'' and picks clay soil, the service answers with a country only,
  and the timer fires. The request that leaves has an empty city and well-drained
  soil, while the form shows Ankara and clay.
\<close>

theorem auto_fetch_body_misses_edits_after_click:
  "map rec_body (rec_inflight (run
      [MapClick (38, 27), Change (Edit_city ''Ankara''), Change (Edit_soil_type clay),
       GeoSettled 0 (GeoJson turkey_only), TimerFired 1] initialWorld))
     = [initialForm\<lparr>country := ''Turkey''\<rparr>]
   \<and> form (ui (run
      [MapClick (38, 27), Change (Edit_city ''Ankara''), Change (Edit_soil_type clay),
       GeoSettled 0 (GeoJson turkey_only), TimerFired 1] initialWorld))
     = initialForm\<lparr>city := ''Ankara'', country := ''Turkey'', soil_type := clay\<rparr>
   \<and> map rec_body (rec_inflight (run
      [MapClick (38, 27), Change (Edit_city ''Ankara''), Change (Edit_soil_type clay),
       GeoSettled 0 (GeoJson turkey_only), TimerFired 1] initialWorld))
     \<noteq> [form (ui (run
      [MapClick (38, 27), Change (Edit_city ''Ankara''), Change (Edit_soil_type clay),
       GeoSettled 0 (GeoJson turkey_only), TimerFired 1] initialWorld))]"
  by (simp add: model_defs turkey_only_def)

text \<open>
  C2. Let request \<open>a\<close> (of point A) be in flight when point B is selected. Then the
  selection cancels \<open>a\<close>, and B's request is the only live one. Whenever \<open>a\<close>
  settles afterwards, the resulting state is the same whatever the service replied:
  the reply reaches neither the form nor any other state, no follow-up request is
  scheduled, and the view state is as before up to the loading flag that \<^verbatim>\<open>.finally\<close>
  clears. At every moment at most one geocode request is live.
\<close>

theorem superseded_geocode_is_cancelled_and_ignored:
  assumes "find (\<lambda>r. geo_id r = a) (geo_inflight (run evs initialWorld)) = Some rA"
  shows "(\<exists>r. find (\<lambda>r. geo_id r = a) (geo_inflight (run (evs @ [MapClick B]) initialWorld))
               = Some r \<and> geo_aborted r)
       \<and> map geo_id (live_geocodes (run (evs @ [MapClick B]) initialWorld))
           = [next_id (run evs initialWorld)]
       \<and> step (GeoSettled a outcome) (run (evs @ MapClick B # later) initialWorld)
           = step (GeoSettled a outcome') (run (evs @ MapClick B # later) initialWorld)
       \<and> (ui (step (GeoSettled a outcome) (run (evs @ MapClick B # later) initialWorld))
             = ui (run (evs @ MapClick B # later) initialWorld)
          \<or> ui (step (GeoSettled a outcome) (run (evs @ MapClick B # later) initialWorld))
             = (ui (run (evs @ MapClick B # later) initialWorld))\<lparr>locationLoading := False\<rparr>)
       \<and> form (ui (step (GeoSettled a outcome) (run (evs @ MapClick B # later) initialWorld)))
           = form (ui (run (evs @ MapClick B # later) initialWorld))
       \<and> timers (step (GeoSettled a outcome) (run (evs @ MapClick B # later) initialWorld))
           = timers (run (evs @ MapClick B # later) initialWorld)
       \<and> rec_inflight (step (GeoSettled a outcome) (run (evs @ MapClick B # later) initialWorld))
           = rec_inflight (run (evs @ MapClick B # later) initialWorld)
       \<and> length (live_geocodes (run tr initialWorld)) \<le> 1"
proof -
  let ?W = "run evs initialWorld"
  let ?V = "run (evs @ MapClick B # later) initialWorld"
  have inv: "geo_inv ?W" "geo_ids_fresh ?W"
    by (rule run_geo_inv[OF initial_geo_inv], rule run_geo_ids_fresh[OF initial_geo_ids_fresh])
  have B: "run (evs @ [MapClick B]) initialWorld = selectPosition B ?W"
    by (simp add: run_append)
  have V: "?V = run later (selectPosition B ?W)"
    by (simp add: run_append)
  from click_supersedes[OF inv assms, of B]
  have s: "superseded a (selectPosition B ?W)"
    and c: "\<exists>r. find (\<lambda>r. geo_id r = a) (geo_inflight (selectPosition B ?W)) = Some r
               \<and> geo_aborted r" by simp_all
  from run_superseded[OF s, of later] V have sV: "superseded a ?V" by simp
  have u: "ui (step (GeoSettled a outcome) ?V) = ui ?V
          \<or> ui (step (GeoSettled a outcome) ?V) = (ui ?V)\<lparr>locationLoading := False\<rparr>"
    by (rule superseded_settle(2)[OF sV])
  then have f: "form (ui (step (GeoSettled a outcome) ?V)) = form (ui ?V)" by auto
  have e: "step (GeoSettled a outcome) ?V = step (GeoSettled a outcome') ?V"
    using superseded_settle(1)[OF sV, of outcome] superseded_settle(1)[OF sV, of outcome']
    by simp
  have l: "map geo_id (live_geocodes (run (evs @ [MapClick B]) initialWorld)) = [next_id ?W]"
    by (simp add: selection_cancels_previous)
  from c B u f e l superseded_settle(3)[OF sV, of outcome] superseded_settle(4)[OF sV, of outcome]
    at_most_one_live_geocode[of tr]
  show ?thesis by simp
qed

theorem superseded_geocode_is_cancelled_and_ignored_witness:
  "map geo_aborted (geo_inflight (run [MapClick (38, 27), MapClick (40, 33)] initialWorld))
     = [True, False]
   \<and> form (ui (step (GeoSettled 0 (GeoJson turkey_only))
        (run [MapClick (38, 27), MapClick (40, 33), Change (Edit_city ''Ankara'')]
           initialWorld)))
     = initialForm\<lparr>city := ''Ankara''\<rparr>
   \<and> step (GeoSettled 0 (GeoJson turkey_only))
        (run [MapClick (38, 27), MapClick (40, 33), Change (Edit_city ''Ankara'')]
           initialWorld)
     = step (GeoSettled 0 GeoFailure)
        (run [MapClick (38, 27), MapClick (40, 33), Change (Edit_city ''Ankara'')]
           initialWorld)"
  using superseded_geocode_is_cancelled_and_ignored
    [of 0 "[MapClick (38, 27)]"
        "\<lparr>geo_id = 0, geo_position = (38, 27), geo_form = initialForm, geo_aborted = False\<rparr>"
        "(40, 33)" "GeoJson turkey_only" "[Change (Edit_city ''Ankara'')]" GeoFailure "[]"]
  by (simp add: model_defs)

text \<open>
  C3. The body of the AI request is the current form with two more members,
  \<open>top_n = 5\<close> and \<open>language = "tr"\<close>, whatever the form holds.
\<close>

theorem ai_payload_is_form_with_top_n_and_language:
  "ai_body (last (ai_inflight (handleAIRecommendation w))) =
     \<lparr>city = city (form (ui w)), country = country (form (ui w)),
      sun_exposure = sun_exposure (form (ui w)), soil_type = soil_type (form (ui w)),
      watering_preference = watering_preference (form (ui w)),
      maintenance_preference = maintenance_preference (form (ui w)),
      wind_exposure = wind_exposure (form (ui w)),
      top_n = Some 5, language = Some ''tr''\<rparr>"
  by (simp add: handleAIRecommendation_def aiPayload_def RecommendationRequest.extend_def
      AIRecommendationRequest.fields_def)

text \<open>
  C4. A plain recommendation request that fails, by a rejected fetch or by a status
  outside 200..299, leaves the result list as it was and sets the error to the fixed
  message. Issuing the request (\<^verbatim>\<open>handleSubmit\<close>, the timer callback, and the two
  events that run them) does not touch the result list; the failing settlement of a
  pending request sets the error and keeps the list; and so does a request that is
  issued and then fails.
\<close>

theorem failed_recommendation_keeps_results:
  assumes "find (\<lambda>q. rec_id q = i) (rec_inflight w) = Some q"
    and "reply = NetworkError
         \<or> (\<exists>status body. reply = Response status body \<and> \<not> res_ok status)"
  shows "error (ui (step (RecSettled i reply) w)) = Some recommendation_error_message
       \<and> results (ui (step (RecSettled i reply) w)) = results (ui w)
       \<and> results (ui (handleSubmit v)) = results (ui v)
       \<and> results (ui (autoFetch t v)) = results (ui v)
       \<and> results (ui (step Submit v)) = results (ui v)
       \<and> results (ui (step (TimerFired j) v)) = results (ui v)
       \<and> error (ui (step (RecSettled (next_id v) reply) (handleSubmit v)))
           = Some recommendation_error_message
       \<and> results (ui (step (RecSettled (next_id v) reply) (handleSubmit v))) = results (ui v)
       \<and> error (ui (step (RecSettled (next_id v) reply) (autoFetch t v)))
           = Some recommendation_error_message
       \<and> results (ui (step (RecSettled (next_id v) reply) (autoFetch t v))) = results (ui v)"
proof -
  have hs: "results (ui (handleSubmit v)) = results (ui v)" by (simp add: handleSubmit_def)
  have af: "results (ui (autoFetch t' v')) = results (ui v')" for t' v'
    by (simp add: autoFetch_def)
  have st: "results (ui (step Submit v)) = results (ui v)" using hs by simp
  have tf: "results (ui (step (TimerFired j) v)) = results (ui v)"
    by (simp add: af split: option.splits)
  obtain q1 where q1: "find (\<lambda>q. rec_id q = next_id v) (rec_inflight (handleSubmit v)) = Some q1"
    using find_own[of "next_id v" "rec_inflight v" ManualSubmit "form (ui v)"]
    by (auto simp: handleSubmit_def)
  obtain q2 where q2: "find (\<lambda>q. rec_id q = next_id v) (rec_inflight (autoFetch t v)) = Some q2"
    using find_own[of "next_id v" "rec_inflight v" AutoFetch "updatedForm t"]
    by (auto simp: autoFetch_def)
  from failed_settle[OF assms] failed_settle[OF q1 assms(2)] failed_settle[OF q2 assms(2)]
    hs af[of t v] st tf
  show ?thesis by simp
qed

theorem failed_recommendation_keeps_results_witness:
  "error (ui (run [Change (Edit_city ''Izmir''), Change (Edit_country ''Turkey''), Submit,
            RecSettled 0 (Response 200 (Some [olive])), Submit,
            RecSettled 1 (Response 500 None)] initialWorld))
     = Some recommendation_error_message
   \<and> results (ui (run [Change (Edit_city ''Izmir''), Change (Edit_country ''Turkey''), Submit,
            RecSettled 0 (Response 200 (Some [olive])), Submit,
            RecSettled 1 (Response 500 None)] initialWorld))
     = [olive]"
  using failed_recommendation_keeps_results
    [of 1 "run [Change (Edit_city ''Izmir''), Change (Edit_country ''Turkey''), Submit,
                RecSettled 0 (Response 200 (Some [olive])), Submit] initialWorld"
        "\<lparr>rec_id = 1, rec_origin = ManualSubmit,
          rec_body = initialForm\<lparr>city := ''Izmir'', country := ''Turkey''\<rparr>\<rparr>"
        "Response 500 None"
        "run [Change (Edit_city ''Izmir''), Change (Edit_country ''Turkey''), Submit,
                RecSettled 0 (Response 200 (Some [olive]))] initialWorld"
        "\<lparr>timer_id = 0, timer_form = initialForm, timer_province = [], timer_country = []\<rparr>"
        0]
  by (simp add: model_defs)

text \<open>
  C5. In every state the application can reach, the AI button is disabled exactly
  when an AI request is in flight or the city is empty or the country is empty; a
  click on the disabled button changes nothing, and a click on the enabled button
  runs \<^verbatim>\<open>handleAIRecommendation\<close>.
\<close>

theorem ai_button_disabled_while_in_flight_or_location_empty:
  "ai_button_disabled (ui (run evs initialWorld)) =
     (ai_inflight (run evs initialWorld) \<noteq> []
      \<or> city (form (ui (run evs initialWorld))) = []
      \<or> country (form (ui (run evs initialWorld))) = [])
   \<and> (ai_button_disabled (ui (run evs initialWorld)) \<longrightarrow>
        step AIClick (run evs initialWorld) = run evs initialWorld)
   \<and> (\<not> ai_button_disabled (ui (run evs initialWorld)) \<longrightarrow>
        step AIClick (run evs initialWorld) = handleAIRecommendation (run evs initialWorld))"
  using run_ai_inv[OF initial_ai_inv, of evs]
  by (simp add: ai_inv_def ai_button_disabled_def)

theorem ai_button_disabled_while_in_flight_or_location_empty_witness:
  "ai_button_disabled (ui (run
      [Change (Edit_city ''Izmir''), Change (Edit_country ''Turkey''), AIClick] initialWorld))
   \<and> step AIClick (run
      [Change (Edit_city ''Izmir''), Change (Edit_country ''Turkey''), AIClick] initialWorld)
     = run [Change (Edit_city ''Izmir''), Change (Edit_country ''Turkey''), AIClick] initialWorld"
  using ai_button_disabled_while_in_flight_or_location_empty
    [of "[Change (Edit_city ''Izmir''), Change (Edit_country ''Turkey''), AIClick]"]
  by (simp add: model_defs)

text \<open>
  C6, as stated, fails: an AI result can be on display when a plain request succeeds.
  The user asks for an AI recommendation and submits the form while it is in flight;
  the AI response arrives and its best pick is shown; then the plain request
  succeeds, and the best pick is still shown.
\<close>

theorem ai_best_pick_survives_plain_success:
  "best_pick_label (ui (run
      [Change (Edit_city ''Izmir''), Change (Edit_country ''Turkey''), AIClick, Submit,
       AISettled 0 (Response 200 (Some olive_pick))] initialWorld))
     = Some ''Zeytin (Olea europaea)''
   \<and> map rec_origin (rec_inflight (run
      [Change (Edit_city ''Izmir''), Change (Edit_country ''Turkey''), AIClick, Submit,
       AISettled 0 (Response 200 (Some olive_pick))] initialWorld)) = [ManualSubmit]
   \<and> best_pick_label (ui (run
      [Change (Edit_city ''Izmir''), Change (Edit_country ''Turkey''), AIClick, Submit,
       AISettled 0 (Response 200 (Some olive_pick)),
       RecSettled 1 (Response 200 (Some [olive]))] initialWorld))
     = Some ''Zeytin (Olea europaea)''
   \<and> rec_inflight (run
      [Change (Edit_city ''Izmir''), Change (Edit_country ''Turkey''), AIClick, Submit,
       AISettled 0 (Response 200 (Some olive_pick)),
       RecSettled 1 (Response 200 (Some [olive]))] initialWorld) = []"
  by (simp add: model_defs olive_pick_def olive_def best_pick_label_def chosen_label_def aiPayload_def)

text \<open>
  C6, amended. Issuing a plain recommendation request, by \<^verbatim>\<open>handleSubmit\<close> or by the
  timer of a geocode resolution, clears the AI result. Whatever happens afterwards,
  an AI result on display is one that an AI response delivered after the request was
  issued; so when no AI response arrives between the issuance and the settlement of
  the plain request, no AI best pick is displayed at that settlement.
\<close>

theorem plain_request_clears_ai_result_at_issuance:
  "aiResult (ui (handleSubmit w)) = None \<and> aiResult (ui (autoFetch t w)) = None
   \<and> (case aiResult (ui (run evs (handleSubmit w))) of
         None \<Rightarrow> True | Some d \<Rightarrow> d \<in> set (ai_arrivals evs))
   \<and> (case aiResult (ui (run evs (autoFetch t w))) of
         None \<Rightarrow> True | Some d \<Rightarrow> d \<in> set (ai_arrivals evs))
   \<and> (ai_arrivals evs = [] \<longrightarrow>
         aiResult (ui (step (RecSettled i reply) (run evs (handleSubmit w)))) = None
       \<and> best_pick_label (ui (step (RecSettled i reply) (run evs (handleSubmit w)))) = None
       \<and> aiResult (ui (step (RecSettled i reply) (run evs (autoFetch t w)))) = None
       \<and> best_pick_label (ui (step (RecSettled i reply) (run evs (autoFetch t w)))) = None)"
proof -
  have a: "aiResult (ui (handleSubmit w)) = None" by (simp add: handleSubmit_def)
  have b: "aiResult (ui (autoFetch t w)) = None" by (simp add: autoFetch_def)
  have n: "aiResult s = None \<Longrightarrow> best_pick_label s = None" for s
    by (simp add: best_pick_label_def)
  from a b cleared_ai_result_stays_cleared[OF a, of evs]
    cleared_ai_result_stays_cleared[OF b, of evs]
    cleared_until_ai_arrival[OF a, of evs i reply] cleared_until_ai_arrival[OF b, of evs i reply]
    n
  show ?thesis by simp
qed

theorem plain_request_clears_ai_result_at_issuance_witness:
  "best_pick_label (ui (run
      [Change (Edit_city ''Izmir''), Change (Edit_country ''Turkey''), AIClick,
       AISettled 0 (Response 200 (Some olive_pick))] initialWorld))
     = Some ''Zeytin (Olea europaea)''
   \<and> ai_arrivals [Change (Edit_soil_type clay)] = []
   \<and> best_pick_label (ui (step (RecSettled 1 (Response 200 (Some [olive])))
      (run [Change (Edit_soil_type clay)] (handleSubmit (run
        [Change (Edit_city ''Izmir''), Change (Edit_country ''Turkey''), AIClick,
         AISettled 0 (Response 200 (Some olive_pick))] initialWorld))))) = None
   \<and> results (ui (step (RecSettled 1 (Response 200 (Some [olive])))
      (run [Change (Edit_soil_type clay)] (handleSubmit (run
        [Change (Edit_city ''Izmir''), Change (Edit_country ''Turkey''), AIClick,
         AISettled 0 (Response 200 (Some olive_pick))] initialWorld))))) = [olive]"
  using plain_request_clears_ai_result_at_issuance
    [of "run [Change (Edit_city ''Izmir''), Change (Edit_country ''Turkey''), AIClick,
         AISettled 0 (Response 200 (Some olive_pick))] initialWorld"
        "\<lparr>timer_id = 0, timer_form = initialForm, timer_province = [], timer_country = []\<rparr>"
        "[Change (Edit_soil_type clay)]" 1 "Response 200 (Some [olive])"]
  by (simp add: model_defs olive_pick_def olive_def best_pick_label_def chosen_label_def aiPayload_def)

text \<open>
  C7. When the reply to a live geocode request has no usable \<open>state\<close>, \<open>city\<close>,
  \<open>province\<close>, \<open>region\<close> or \<open>country\<close> (each absent or empty), the location error is
  the manual-entry message, the form is unchanged and no follow-up request is
  scheduled.
\<close>

theorem empty_address_sets_manual_entry_error:
  assumes "find (\<lambda>r. geo_id r = i) (geo_inflight w) = Some r" and "\<not> geo_aborted r"
    and "\<not> truthy (addr_state (address_of d))" and "\<not> truthy (addr_city (address_of d))"
    and "\<not> truthy (addr_province (address_of d))"
    and "\<not> truthy (addr_region (address_of d))"
    and "\<not> truthy (addr_country (address_of d))"
  shows "locationError (ui (step (GeoSettled i (GeoJson d)) w)) = Some manual_entry_message
       \<and> form (ui (step (GeoSettled i (GeoJson d)) w)) = form (ui w)
       \<and> timers (step (GeoSettled i (GeoJson d)) w) = timers w"
proof -
  have "province_of (address_of d) = []"
    using assms(3-6) by (rule province_of_empty)
  moreover have "country_of (address_of d) = []"
    using assms(7) by (rule country_of_empty)
  ultimately show ?thesis using assms(1,2)
    by (simp add: geocode_settled_def)
qed

theorem empty_address_sets_manual_entry_error_witness:
  "locationError (ui (step
      (GeoSettled 0 (GeoJson \<lparr>address = Some (empty_address\<lparr>addr_city := Some []\<rparr>)\<rparr>))
      (run [Change (Edit_city ''Ankara''), MapClick (38, 27)] initialWorld)))
     = Some ''Could not detect city from this point, please type it manually.''
   \<and> form (ui (step
      (GeoSettled 0 (GeoJson \<lparr>address = Some (empty_address\<lparr>addr_city := Some []\<rparr>)\<rparr>))
      (run [Change (Edit_city ''Ankara''), MapClick (38, 27)] initialWorld)))
     = initialForm\<lparr>city := ''Ankara''\<rparr>"
  using empty_address_sets_manual_entry_error
    [of 0 "run [Change (Edit_city ''Ankara''), MapClick (38, 27)] initialWorld"
        "\<lparr>geo_id = 0, geo_position = (38, 27),
          geo_form = initialForm\<lparr>city := ''Ankara''\<rparr>, geo_aborted = False\<rparr>"
        "\<lparr>address = Some (empty_address\<lparr>addr_city := Some []\<rparr>)\<rparr>"]
  by (simp add: model_defs manual_entry_message_def)

text \<open>
  C8. When the reply to a live geocode request has a place or a country, each of the
  form's \<open>city\<close> and \<open>country\<close> is overwritten with the resolved value when that value
  is non-empty and keeps the user's entry otherwise; the other fields are untouched.
  In particular a reply with a country and no place changes the country only.
\<close>

theorem geocode_merge_keeps_field_on_empty_value:
  assumes "find (\<lambda>r. geo_id r = i) (geo_inflight w) = Some r" and "\<not> geo_aborted r"
    and "province_of (address_of d) \<noteq> [] \<or> country_of (address_of d) \<noteq> []"
  shows "form (ui (step (GeoSettled i (GeoJson d)) w)) =
         (form (ui w))
           \<lparr>city := (if province_of (address_of d) \<noteq> [] then province_of (address_of d)
                     else city (form (ui w))),
            country := (if country_of (address_of d) \<noteq> [] then country_of (address_of d)
                        else country (form (ui w)))\<rparr>"
  using assms
  by (auto simp: geocode_settled_def merge_location_def str_or_def Let_def)

theorem geocode_merge_keeps_field_on_empty_value_witness:
  "form (ui (step (GeoSettled 0 (GeoJson turkey_only))
      (run [Change (Edit_city ''Ankara''), MapClick (38, 27)] initialWorld)))
     = initialForm\<lparr>city := ''Ankara'', country := ''Turkey''\<rparr>"
  using geocode_merge_keeps_field_on_empty_value
    [of 0 "run [Change (Edit_city ''Ankara''), MapClick (38, 27)] initialWorld"
        "\<lparr>geo_id = 0, geo_position = (38, 27),
          geo_form = initialForm\<lparr>city := ''Ankara''\<rparr>, geo_aborted = False\<rparr>"
        turkey_only]
  by (simp add: model_defs turkey_only_def)

text \<open>
  C9. When an AI result with a best pick is on display and no plant of the result
  list has the best pick's \<open>plant_id\<close>, the label of the best pick is the fallback
  ``Bilinmeyen bitki'' (unknown plant).
\<close>

theorem unmatched_best_pick_gets_fallback_label:
  assumes "aiResult s = Some r" and "ai_best r = Some best"
    and "\<forall>p \<in> set (results s).
           PlantRecommendation.plant_id p \<noteq> AIChosenPlant.plant_id best"
  shows "best_pick_label s = Some ''Bilinmeyen bitki''"
  using assms
  by (simp add: best_pick_label_def chosen_label_def unknown_plant_label_def find_None_iff
      split: option.splits)

theorem unmatched_best_pick_gets_fallback_label_witness:
  "best_pick_label
     (initialState\<lparr>results := [olive],
        aiResult := Some \<lparr>rule_based_results = [olive],
          ai_best = Some \<lparr>plant_id = 7, reasoning = ''dayanikli'', source = ''ai''\<rparr>\<rparr>\<rparr>)
   = Some ''Bilinmeyen bitki''"
  using unmatched_best_pick_gets_fallback_label
    [of "initialState\<lparr>results := [olive],
        aiResult := Some \<lparr>rule_based_results = [olive],
          ai_best = Some \<lparr>plant_id = 7, reasoning = ''dayanikli'', source = ''ai''\<rparr>\<rparr>\<rparr>"
        "\<lparr>rule_based_results = [olive],
          ai_best = Some \<lparr>plant_id = 7, reasoning = ''dayanikli'', source = ''ai''\<rparr>\<rparr>"
        "\<lparr>plant_id = 7, reasoning = ''dayanikli'', source = ''ai''\<rparr>"]
  by (simp add: olive_def)

text \<open>
  C10. The place name taken from a geocode reply is the first non-empty of \<open>state\<close>,
  \<open>city\<close>, \<open>province\<close>, \<open>region\<close>, in this order, and when there is one the form's city
  becomes it; so a non-empty \<open>state\<close> wins over \<open>city\<close>.
\<close>

theorem city_taken_from_first_nonempty_place_field:
  assumes "find (\<lambda>r. geo_id r = i) (geo_inflight w) = Some r" and "\<not> geo_aborted r"
    and "first_nonempty [addr_state a, addr_city a, addr_province a, addr_region a] \<noteq> []"
  shows "province_of a =
           first_nonempty [addr_state a, addr_city a, addr_province a, addr_region a]
       \<and> city (form (ui (step (GeoSettled i (GeoJson \<lparr>address = Some a\<rparr>)) w))) =
           first_nonempty [addr_state a, addr_city a, addr_province a, addr_region a]
       \<and> (\<forall>s. addr_state a = Some s \<and> s \<noteq> [] \<longrightarrow>
            city (form (ui (step (GeoSettled i (GeoJson \<lparr>address = Some a\<rparr>)) w))) = s)"
proof -
  let ?p = "first_nonempty [addr_state a, addr_city a, addr_province a, addr_region a]"
  have p: "province_of a = ?p" by (rule province_of_first_nonempty)
  with assms(3) have "province_of a \<noteq> []" by simp
  with assms(1,2)
  have c: "city (form (ui (step (GeoSettled i (GeoJson \<lparr>address = Some a\<rparr>)) w)))
           = province_of a"
    by (simp add: geocode_settled_def address_of_def merge_location_def str_or_def Let_def)
  have "\<forall>s. addr_state a = Some s \<and> s \<noteq> [] \<longrightarrow> ?p = s" by simp
  with p c show ?thesis by simp
qed

theorem city_taken_from_first_nonempty_place_field_witness:
  "city (form (ui (step
      (GeoSettled 0 (GeoJson \<lparr>address = Some
         (empty_address\<lparr>addr_state := Some ''Izmir'', addr_city := Some ''Konak''\<rparr>)\<rparr>))
      (run [MapClick (38, 27)] initialWorld)))) = ''Izmir''"
  using city_taken_from_first_nonempty_place_field
    [of 0 "run [MapClick (38, 27)] initialWorld"
        "\<lparr>geo_id = 0, geo_position = (38, 27), geo_form = initialForm, geo_aborted = False\<rparr>"
        "empty_address\<lparr>addr_state := Some ''Izmir'', addr_city := Some ''Konak''\<rparr>"]
  by (simp add: model_defs)

end
